theory Spec2Isabelle
  imports
    Complex_Main
    "HOL-Library.Sublist"
    "HOL-Library.Char_ord"
    "HOL-Library.List_Lexorder"
    "HOL-Library.Multiset"
begin

section \<open>Strings\<close>

text \<open>
  A Python \<^verbatim>\<open>str\<close> is modelled as its UTF-8 encoding, a \<^typ>\<open>string\<close> of bytes.
  The program only concatenates strings, compares them for equality, orders them (the
  group keys of \<^verbatim>\<open>groupby\<close>) and tests \<^verbatim>\<open>needle in s\<close>; on well-formed UTF-8 all
  four agree with the same operation on code points. Each constant below is one string
  literal of \<^verbatim>\<open>app.py\<close>; its comment gives the code points and the meaning.
\<close>

named_theorems lit \<open>the string literals of app.py\<close>

definition s_stationary_combustion :: string where
  \<comment> \<open>U+56FA U+5B9A U+71C3 U+70E7, "stationary combustion"\<close>
  [lit]: "s_stationary_combustion =
    [CHR 0xE5, CHR 0x9B, CHR 0xBA, CHR 0xE5, CHR 0xAE, CHR 0x9A,
     CHR 0xE7, CHR 0x87, CHR 0x83, CHR 0xE7, CHR 0x83, CHR 0xA7]"

definition s_mobile_combustion :: string where
  \<comment> \<open>U+79FB U+52A8 U+71C3 U+70E7, "mobile combustion"\<close>
  [lit]: "s_mobile_combustion =
    [CHR 0xE7, CHR 0xA7, CHR 0xBB, CHR 0xE5, CHR 0x8A, CHR 0xA8,
     CHR 0xE7, CHR 0x87, CHR 0x83, CHR 0xE7, CHR 0x83, CHR 0xA7]"

definition s_process_emission :: string where
  \<comment> \<open>U+5DE5 U+827A U+6392 U+653E, "process emissions"\<close>
  [lit]: "s_process_emission =
    [CHR 0xE5, CHR 0xB7, CHR 0xA5, CHR 0xE8, CHR 0x89, CHR 0xBA,
     CHR 0xE6, CHR 0x8E, CHR 0x92, CHR 0xE6, CHR 0x94, CHR 0xBE]"

definition s_fugitive_emission :: string where
  \<comment> \<open>U+65E0 U+7EC4 U+7EC7 U+6392 U+653E, "fugitive emissions"\<close>
  [lit]: "s_fugitive_emission =
    [CHR 0xE6, CHR 0x97, CHR 0xA0, CHR 0xE7, CHR 0xBB, CHR 0x84, CHR 0xE7, CHR 0xBB, CHR 0x87,
     CHR 0xE6, CHR 0x8E, CHR 0x92, CHR 0xE6, CHR 0x94, CHR 0xBE]"

definition s_purchased_electricity :: string where
  \<comment> \<open>U+5916 U+8D2D U+7535 U+529B, "purchased electricity"\<close>
  [lit]: "s_purchased_electricity =
    [CHR 0xE5, CHR 0xA4, CHR 0x96, CHR 0xE8, CHR 0xB4, CHR 0xAD,
     CHR 0xE7, CHR 0x94, CHR 0xB5, CHR 0xE5, CHR 0x8A, CHR 0x9B]"

definition s_purchased_heat :: string where
  \<comment> \<open>U+5916 U+8D2D U+70ED U+529B, "purchased heat"\<close>
  [lit]: "s_purchased_heat =
    [CHR 0xE5, CHR 0xA4, CHR 0x96, CHR 0xE8, CHR 0xB4, CHR 0xAD,
     CHR 0xE7, CHR 0x83, CHR 0xAD, CHR 0xE5, CHR 0x8A, CHR 0x9B]"

definition s_national_average :: string where
  \<comment> \<open>U+5168 U+56FD U+5E73 U+5747, "national average"\<close>
  [lit]: "s_national_average =
    [CHR 0xE5, CHR 0x85, CHR 0xA8, CHR 0xE5, CHR 0x9B, CHR 0xBD,
     CHR 0xE5, CHR 0xB9, CHR 0xB3, CHR 0xE5, CHR 0x9D, CHR 0x87]"

definition s_electricity :: string where
  \<comment> \<open>U+7535, "electricity"\<close>
  [lit]: "s_electricity = [CHR 0xE7, CHR 0x94, CHR 0xB5]"

definition s_unidentified :: string where
  \<comment> \<open>U+672A U+8BC6 U+522B, "unidentified"\<close>
  [lit]: "s_unidentified =
    [CHR 0xE6, CHR 0x9C, CHR 0xAA, CHR 0xE8, CHR 0xAF, CHR 0x86, CHR 0xE5, CHR 0x88, CHR 0xAB]"

definition s_pending :: string where
  \<comment> \<open>U+5F85 U+8865 U+5145, "to be supplied"\<close>
  [lit]: "s_pending =
    [CHR 0xE5, CHR 0xBE, CHR 0x85, CHR 0xE8, CHR 0xA1, CHR 0xA5, CHR 0xE5, CHR 0x85, CHR 0x85]"

definition s_matched :: string where
  \<comment> \<open>U+2705 U+0020 U+5DF2 U+5339 U+914D, check mark and "matched"\<close>
  [lit]: "s_matched =
    [CHR 0xE2, CHR 0x9C, CHR 0x85, CHR 0x20, CHR 0xE5, CHR 0xB7, CHR 0xB2,
     CHR 0xE5, CHR 0x8C, CHR 0xB9, CHR 0xE9, CHR 0x85, CHR 0x8D]"

definition s_unmatched :: string where
  \<comment> \<open>U+274C U+0020 U+672A U+5339 U+914D, cross mark and "not matched"\<close>
  [lit]: "s_unmatched =
    [CHR 0xE2, CHR 0x9D, CHR 0x8C, CHR 0x20, CHR 0xE6, CHR 0x9C, CHR 0xAA,
     CHR 0xE5, CHR 0x8C, CHR 0xB9, CHR 0xE9, CHR 0x85, CHR 0x8D]"

definition s_factor_library :: string where
  \<comment> \<open>U+56E0 U+5B50 U+5E93, "factor library"\<close>
  [lit]: "s_factor_library =
    [CHR 0xE5, CHR 0x9B, CHR 0xA0, CHR 0xE5, CHR 0xAD, CHR 0x90, CHR 0xE5, CHR 0xBA, CHR 0x93]"

definition s_manual_edit :: string where
  \<comment> \<open>U+624B U+52A8 U+4FEE U+6539, "manually modified"\<close>
  [lit]: "s_manual_edit =
    [CHR 0xE6, CHR 0x89, CHR 0x8B, CHR 0xE5, CHR 0x8A, CHR 0xA8,
     CHR 0xE4, CHR 0xBF, CHR 0xAE, CHR 0xE6, CHR 0x94, CHR 0xB9]"

definition s_manual :: string where
  \<comment> \<open>U+270F U+FE0F U+0020 U+624B U+52A8, pencil and "manual"\<close>
  [lit]: "s_manual =
    [CHR 0xE2, CHR 0x9C, CHR 0x8F, CHR 0xEF, CHR 0xB8, CHR 0x8F, CHR 0x20,
     CHR 0xE6, CHR 0x89, CHR 0x8B, CHR 0xE5, CHR 0x8A, CHR 0xA8]"

definition s_direct :: string where
  \<comment> \<open>U+76F4 U+63A5, "direct"\<close>
  [lit]: "s_direct = [CHR 0xE7, CHR 0x9B, CHR 0xB4, CHR 0xE6, CHR 0x8E, CHR 0xA5]"

definition s_indirect :: string where
  \<comment> \<open>U+95F4 U+63A5, "indirect"\<close>
  [lit]: "s_indirect = [CHR 0xE9, CHR 0x97, CHR 0xB4, CHR 0xE6, CHR 0x8E, CHR 0xA5]"

definition s_scope_one :: string where
  \<comment> \<open>U+8303 U+56F4 U+4E00, "scope one"\<close>
  [lit]: "s_scope_one =
    [CHR 0xE8, CHR 0x8C, CHR 0x83, CHR 0xE5, CHR 0x9B, CHR 0xB4, CHR 0xE4, CHR 0xB8, CHR 0x80]"

definition s_scope_two :: string where
  \<comment> \<open>U+8303 U+56F4 U+4E8C, "scope two"\<close>
  [lit]: "s_scope_two =
    [CHR 0xE8, CHR 0x8C, CHR 0x83, CHR 0xE5, CHR 0x9B, CHR 0xB4, CHR 0xE4, CHR 0xBA, CHR 0x8C]"

text \<open>Sources named by the seeded factor library.\<close>

definition s_natural_gas :: string where
  \<comment> \<open>U+5929 U+7136 U+6C14\<close>
  [lit]: "s_natural_gas =
    [CHR 0xE5, CHR 0xA4, CHR 0xA9, CHR 0xE7, CHR 0x84, CHR 0xB6, CHR 0xE6, CHR 0xB0, CHR 0x94]"

definition s_coal :: string where
  \<comment> \<open>U+7164 U+70AD\<close>
  [lit]: "s_coal = [CHR 0xE7, CHR 0x85, CHR 0xA4, CHR 0xE7, CHR 0x82, CHR 0xAD]"

definition s_diesel :: string where
  \<comment> \<open>U+67F4 U+6CB9\<close>
  [lit]: "s_diesel = [CHR 0xE6, CHR 0x9F, CHR 0xB4, CHR 0xE6, CHR 0xB2, CHR 0xB9]"

definition s_petrol :: string where
  \<comment> \<open>U+6C7D U+6CB9\<close>
  [lit]: "s_petrol = [CHR 0xE6, CHR 0xB1, CHR 0xBD, CHR 0xE6, CHR 0xB2, CHR 0xB9]"

definition s_propane :: string where
  \<comment> \<open>U+4E19 U+70F7\<close>
  [lit]: "s_propane = [CHR 0xE4, CHR 0xB8, CHR 0x99, CHR 0xE7, CHR 0x83, CHR 0xB7]"

definition s_carbon_dioxide :: string where
  \<comment> \<open>U+4E8C U+6C27 U+5316 U+78B3\<close>
  [lit]: "s_carbon_dioxide =
    [CHR 0xE4, CHR 0xBA, CHR 0x8C, CHR 0xE6, CHR 0xB0, CHR 0xA7,
     CHR 0xE5, CHR 0x8C, CHR 0x96, CHR 0xE7, CHR 0xA2, CHR 0xB3]"

definition s_methane_septic :: string where
  \<comment> \<open>U+7532 U+70F7 ( U+5316 U+7CAA U+6C60 ), "methane (septic tank)"\<close>
  [lit]: "s_methane_septic =
    [CHR 0xE7, CHR 0x94, CHR 0xB2, CHR 0xE7, CHR 0x83, CHR 0xB7, CHR 0x28,
     CHR 0xE5, CHR 0x8C, CHR 0x96, CHR 0xE7, CHR 0xB2, CHR 0xAA, CHR 0xE6, CHR 0xB1, CHR 0xA0,
     CHR 0x29]"

definition s_north_china :: string where
  \<comment> \<open>U+534E U+5317 U+533A U+57DF\<close>
  [lit]: "s_north_china =
    [CHR 0xE5, CHR 0x8D, CHR 0x8E, CHR 0xE5, CHR 0x8C, CHR 0x97,
     CHR 0xE5, CHR 0x8C, CHR 0xBA, CHR 0xE5, CHR 0x9F, CHR 0x9F]"

definition s_east_china :: string where
  \<comment> \<open>U+534E U+4E1C U+533A U+57DF\<close>
  [lit]: "s_east_china =
    [CHR 0xE5, CHR 0x8D, CHR 0x8E, CHR 0xE4, CHR 0xB8, CHR 0x9C,
     CHR 0xE5, CHR 0x8C, CHR 0xBA, CHR 0xE5, CHR 0x9F, CHR 0x9F]"

definition s_steam :: string where
  \<comment> \<open>U+84B8 U+6C7D\<close>
  [lit]: "s_steam = [CHR 0xE8, CHR 0x92, CHR 0xB8, CHR 0xE6, CHR 0xB1, CHR 0xBD]"

text \<open>The six column names an uploaded table must have.\<close>

definition c_category :: string where
  \<comment> \<open>U+7C7B U+522B\<close>
  [lit]: "c_category = [CHR 0xE7, CHR 0xB1, CHR 0xBB, CHR 0xE5, CHR 0x88, CHR 0xAB]"

definition c_subcategory :: string where
  \<comment> \<open>U+5B50 U+7C7B U+522B\<close>
  [lit]: "c_subcategory =
    [CHR 0xE5, CHR 0xAD, CHR 0x90, CHR 0xE7, CHR 0xB1, CHR 0xBB, CHR 0xE5, CHR 0x88, CHR 0xAB]"

definition c_source :: string where
  \<comment> \<open>U+6392 U+653E U+6E90\<close>
  [lit]: "c_source =
    [CHR 0xE6, CHR 0x8E, CHR 0x92, CHR 0xE6, CHR 0x94, CHR 0xBE, CHR 0xE6, CHR 0xBA, CHR 0x90]"

definition c_facility :: string where
  \<comment> \<open>U+8BBE U+65BD / U+8FC7 U+7A0B\<close>
  [lit]: "c_facility =
    [CHR 0xE8, CHR 0xAE, CHR 0xBE, CHR 0xE6, CHR 0x96, CHR 0xBD, CHR 0x2F,
     CHR 0xE8, CHR 0xBF, CHR 0x87, CHR 0xE7, CHR 0xA8, CHR 0x8B]"

definition c_activity :: string where
  \<comment> \<open>U+6D3B U+52A8 U+6570 U+636E\<close>
  [lit]: "c_activity =
    [CHR 0xE6, CHR 0xB4, CHR 0xBB, CHR 0xE5, CHR 0x8A, CHR 0xA8,
     CHR 0xE6, CHR 0x95, CHR 0xB0, CHR 0xE6, CHR 0x8D, CHR 0xAE]"

definition c_unit :: string where
  \<comment> \<open>U+8BA1 U+91CF U+5355 U+4F4D\<close>
  [lit]: "c_unit =
    [CHR 0xE8, CHR 0xAE, CHR 0xA1, CHR 0xE9, CHR 0x87, CHR 0x8F,
     CHR 0xE5, CHR 0x8D, CHR 0x95, CHR 0xE4, CHR 0xBD, CHR 0x8D]"

text \<open>Python's \<^verbatim>\<open>needle in s\<close> on strings: \<open>needle\<close> occurs in \<open>s\<close> as a contiguous run.\<close>

fun str_contains :: "string \<Rightarrow> string \<Rightarrow> bool" where
  "str_contains needle [] = (needle = [])"
| "str_contains needle (c # cs) = (prefix needle (c # cs) \<or> str_contains needle cs)"

section \<open>Data model\<close>

text \<open>
  A cell of a text column of a pandas DataFrame: a string, or a missing value. A blank
  cell of the uploaded workbook is read as \<open>NaN\<close>; a cell cleared in the data editor is
  Python's \<open>None\<close>. \<open>str\<close> is Python's \<^verbatim>\<open>str(x)\<close> on such a cell.

  The two numeric columns (activity quantity, emission factor) hold numbers; float64
  arithmetic is idealised as arithmetic on \<^typ>\<open>real\<close>. A blank numeric cell is not
  modelled: pandas leaves such a row out of every sum, of the total and of the buckets
  alike.
\<close>

datatype cell = Txt string | NaN | PyNone

fun str :: "cell \<Rightarrow> string" where
  "str (Txt s) = s"
| "str NaN = ''nan''"
| "str PyNone = ''None''"

text \<open>An entry of \<^verbatim>\<open>st.session_state.emission_factors\<close>, and the library itself (a dict).\<close>

record factor_info =
  factor :: real
  unit :: string
  ghg_type :: string

type_synonym library = "string \<rightharpoonup> factor_info"

definition seed_entries :: "(string \<times> factor_info) list" where
  "seed_entries =
   [(s_stationary_combustion @ ''-'' @ s_natural_gas,
       \<lparr>factor = 2.1622, unit = ''kgCO2/m3'', ghg_type = ''CO2''\<rparr>),
    (s_stationary_combustion @ ''-'' @ s_coal,
       \<lparr>factor = 2.38, unit = ''kgCO2/kg'', ghg_type = ''CO2''\<rparr>),
    (s_stationary_combustion @ ''-'' @ s_diesel,
       \<lparr>factor = 3.0959, unit = ''kgCO2/kg'', ghg_type = ''CO2''\<rparr>),
    (s_stationary_combustion @ ''-'' @ s_petrol,
       \<lparr>factor = 2.9251, unit = ''kgCO2/kg'', ghg_type = ''CO2''\<rparr>),
    (s_mobile_combustion @ ''-'' @ s_petrol,
       \<lparr>factor = 2.9251, unit = ''kgCO2/kg'', ghg_type = ''CO2''\<rparr>),
    (s_mobile_combustion @ ''-'' @ s_diesel,
       \<lparr>factor = 3.0959, unit = ''kgCO2/kg'', ghg_type = ''CO2''\<rparr>),
    (s_process_emission @ ''-'' @ s_propane,
       \<lparr>factor = 2.9761, unit = ''kgCO2/kg'', ghg_type = ''CO2''\<rparr>),
    (s_process_emission @ ''-'' @ s_carbon_dioxide,
       \<lparr>factor = 1.0, unit = ''kgCO2/kg'', ghg_type = ''CO2''\<rparr>),
    (s_fugitive_emission @ ''-R410A'',
       \<lparr>factor = 2088, unit = ''kgCO2e/kg'', ghg_type = ''HFCs''\<rparr>),
    (s_fugitive_emission @ ''-R32'',
       \<lparr>factor = 675, unit = ''kgCO2e/kg'', ghg_type = ''HFCs''\<rparr>),
    (s_fugitive_emission @ ''-'' @ s_methane_septic,
       \<lparr>factor = 22.4, unit = ''kgCO2e/kgBOD'', ghg_type = ''CH4''\<rparr>),
    (s_purchased_electricity @ ''-'' @ s_national_average,
       \<lparr>factor = 0.5703, unit = ''kgCO2/kWh'', ghg_type = ''CO2''\<rparr>),
    (s_purchased_electricity @ ''-'' @ s_north_china,
       \<lparr>factor = 0.8843, unit = ''kgCO2/kWh'', ghg_type = ''CO2''\<rparr>),
    (s_purchased_electricity @ ''-'' @ s_east_china,
       \<lparr>factor = 0.7035, unit = ''kgCO2/kWh'', ghg_type = ''CO2''\<rparr>),
    (s_purchased_heat @ ''-'' @ s_steam,
       \<lparr>factor = 110, unit = ''kgCO2/GJ'', ghg_type = ''CO2''\<rparr>)]"

definition seed_library :: library where
  "seed_library = map_of seed_entries"

text \<open>
  A row of the uploaded table (the six required columns), and the same row with the six
  columns the matcher adds: suggested source type, emission factor, factor unit,
  greenhouse gas type, match status, data source.
\<close>

record activity_row =
  category :: cell
  subcategory :: cell
  source :: cell
  facility :: cell
  activity :: real
  measure_unit :: cell

record matched_row = activity_row +
  suggested_type :: cell
  emission_factor :: real
  factor_unit :: cell
  ghg :: cell
  match_status :: cell
  data_source :: cell

section \<open>Matcher\<close>

text \<open>The \<^verbatim>\<open>if\<close>/\<^verbatim>\<open>elif\<close> chain of lines 210 to 223, in the source's order.\<close>

definition derive_key :: "string \<Rightarrow> string \<Rightarrow> string" where
  "derive_key subcat src =
    (if str_contains ''1.1'' subcat then s_stationary_combustion @ ''-'' @ src
     else if str_contains ''1.2'' subcat then s_mobile_combustion @ ''-'' @ src
     else if str_contains ''1.3'' subcat then s_process_emission @ ''-'' @ src
     else if str_contains ''1.4'' subcat then s_fugitive_emission @ ''-'' @ src
     else if str_contains ''2.1'' subcat then
       (if str_contains s_electricity src
        then s_purchased_electricity @ ''-'' @ s_national_average
        else s_purchased_electricity @ ''-'' @ src)
     else if str_contains ''2.2'' subcat then s_purchased_heat @ ''-'' @ src
     else [])"

text \<open>Lines 199 to 204: the six new columns with their initial values.\<close>

definition init_columns :: "activity_row \<Rightarrow> matched_row" where
  "init_columns r =
    activity_row.extend r
      (matched_row.fields (Txt []) 0 (Txt []) (Txt ''CO2'') (Txt []) (Txt []))"

text \<open>
  The body of the loop, lines 207 to 239. \<^verbatim>\<open>key and key in emission_factors\<close> is false
  for the empty key whatever the library holds.
\<close>

definition match_row :: "library \<Rightarrow> matched_row \<Rightarrow> matched_row" where
  "match_row lib row =
    (let subcat = str (subcategory row);
         src = str (source row);
         key = derive_key subcat src
     in case (if key = [] then None else lib key) of
          Some info \<Rightarrow>
            row\<lparr>suggested_type := Txt key,
                emission_factor := factor info,
                factor_unit := Txt (unit info),
                ghg := Txt (ghg_type info),
                match_status := Txt s_matched,
                data_source := Txt s_factor_library\<rparr>
        | None \<Rightarrow>
            row\<lparr>suggested_type := Txt (if key \<noteq> [] then key else s_unidentified),
                emission_factor := 0,
                factor_unit := Txt s_pending,
                ghg := Txt ''CO2'',
                match_status := Txt s_unmatched,
                data_source := Txt s_pending\<rparr>)"

definition matcher :: "library \<Rightarrow> activity_row list \<Rightarrow> matched_row list" where
  "matcher lib df = map (match_row lib) (map init_columns df)"



section \<open>Override reconciler\<close>

text \<open>
  Lines 284 to 290. \<open>matched\<close> is the row of \<^verbatim>\<open>st.session_state.matched_data\<close>, as the
  matcher left it; \<open>edited\<close> is the same row of the copy the data editor returns. The
  editor of the match result keeps the rows (no \<^verbatim>\<open>num_rows="dynamic"\<close>), so the two tables
  have the same index and the loop pairs them up.
\<close>

definition reconcile_row :: "matched_row \<Rightarrow> matched_row \<Rightarrow> matched_row" where
  "reconcile_row matched edited =
    (if emission_factor edited \<noteq> emission_factor matched then
       edited\<lparr>data_source := Txt s_manual_edit, match_status := Txt s_manual\<rparr>
     else if emission_factor edited > 0 then
       (if data_source edited \<noteq> Txt s_manual_edit
        then edited\<lparr>match_status := Txt s_matched\<rparr>
        else edited)
     else edited)"

definition reconcile :: "matched_row list \<Rightarrow> matched_row list \<Rightarrow> matched_row list" where
  "reconcile matched_df edited_matched_df = map2 reconcile_row matched_df edited_matched_df"

section \<open>Calculation engine\<close>

text \<open>Lines 331 to 334: the three derived columns.\<close>

record calc_row = matched_row +
  emission_kg :: real
  emission_t :: real
  scope :: string

definition compute_row :: "matched_row \<Rightarrow> calc_row" where
  "compute_row r =
    (let kg = activity r * emission_factor r
     in matched_row.extend r
          (calc_row.fields kg (kg / 1000)
             (if str_contains s_direct (str (category r)) then s_scope_one else s_scope_two)))"

definition calc_df :: "matched_row list \<Rightarrow> calc_row list" where
  "calc_df edited_data = map compute_row edited_data"

section \<open>Aggregator\<close>








text \<open>
  \<^verbatim>\<open>df.groupby(key)[val].sum()\<close> with pandas' defaults: rows whose key is missing are
  dropped (\<^verbatim>\<open>dropna=True\<close>), and the groups come in ascending key order
  (\<^verbatim>\<open>sort=True\<close>), one per distinct key. The keys of this model are text, which pandas
  compares by code point (a column that holds only numbers is ordered by their values
  instead). The order of the groups depends on the keys alone, not on the order of the
  rows, and the program never shows it: the scope buckets are read by key, and the two
  summaries by gas type and by subcategory are sorted again by their tonnes.
\<close>

fun text_key :: "cell \<Rightarrow> string option" where
  "text_key (Txt s) = Some s"
| "text_key NaN = None"
| "text_key PyNone = None"

definition group_keys :: "('r \<Rightarrow> cell) \<Rightarrow> 'r list \<Rightarrow> string list" where
  "group_keys key df = sort (remdups (List.map_filter (\<lambda>r. text_key (key r)) df))"

definition groupby_sum ::
  "(real list \<Rightarrow> real) \<Rightarrow> ('r \<Rightarrow> cell) \<Rightarrow> ('r \<Rightarrow> real) \<Rightarrow> 'r list \<Rightarrow> (string \<times> real) list" where
  "groupby_sum gsum key val df =
    map (\<lambda>k. (k, gsum (map val (filter (\<lambda>r. key r = Txt k) df)))) (group_keys key df)"

text \<open>\<^verbatim>\<open>series.get(k, dflt)\<close>.\<close>

definition series_get :: "(string \<times> real) list \<Rightarrow> string \<Rightarrow> real \<Rightarrow> real" where
  "series_get series k dflt = (case map_of series k of None \<Rightarrow> dflt | Some v \<Rightarrow> v)"

text \<open>
  \<^verbatim>\<open>sort_values(col, ascending=False)\<close> with the default \<^verbatim>\<open>kind='quicksort'\<close>, which is
  not a stable sort: the rows come out in descending order of the column, and which of
  two rows with equal values comes first is not fixed. The model sorts a rearrangement
  \<open>shuffle\<close> of the table with a stable sort and reverses the result; the parameter
  \<open>shuffle\<close> stands for whatever the library's sort does to rows with equal values. Every
  descending arrangement of a table is obtained for some \<open>shuffle\<close>.
\<close>

definition rearranges :: "('a list \<Rightarrow> 'a list) \<Rightarrow> bool" where
  "rearranges shuffle \<longleftrightarrow> (\<forall>xs. mset (shuffle xs) = mset xs)"

definition sort_values_desc ::
  "((string \<times> real) list \<Rightarrow> (string \<times> real) list) \<Rightarrow> (string \<times> real) list \<Rightarrow> (string \<times> real) list" where
  "sort_values_desc shuffle summary = rev (sort_key snd (shuffle summary))"

text \<open>Lines 336 to 339.\<close>

definition total_emission :: "(real list \<Rightarrow> real) \<Rightarrow> calc_row list \<Rightarrow> real" where
  "total_emission ssum df = ssum (map emission_t df)"

definition scope_summary :: "(real list \<Rightarrow> real) \<Rightarrow> calc_row list \<Rightarrow> (string \<times> real) list" where
  "scope_summary gsum df = groupby_sum gsum (\<lambda>r. Txt (scope r)) emission_t df"

definition scope1 :: "(real list \<Rightarrow> real) \<Rightarrow> calc_row list \<Rightarrow> real" where
  "scope1 gsum df = series_get (scope_summary gsum df) s_scope_one 0"

definition scope2 :: "(real list \<Rightarrow> real) \<Rightarrow> calc_row list \<Rightarrow> real" where
  "scope2 gsum df = series_get (scope_summary gsum df) s_scope_two 0"

text \<open>Lines 351 and 361: the share of a scope, guarded against a zero total.\<close>

definition share :: "real \<Rightarrow> real \<Rightarrow> real" where
  "share part whole = (if whole > 0 then part / whole * 100 else 0)"

text \<open>Lines 384 and 385, and lines 411 and 412.\<close>

definition ghg_summary ::
  "(real list \<Rightarrow> real) \<Rightarrow> ((string \<times> real) list \<Rightarrow> (string \<times> real) list) \<Rightarrow>
   calc_row list \<Rightarrow> (string \<times> real) list" where
  "ghg_summary gsum shuffle df = sort_values_desc shuffle (groupby_sum gsum ghg emission_t df)"

definition subcat ::
  "(real list \<Rightarrow> real) \<Rightarrow> ((string \<times> real) list \<Rightarrow> (string \<times> real) list) \<Rightarrow>
   calc_row list \<Rightarrow> (string \<times> real) list" where
  "subcat gsum shuffle df =
    sort_values_desc shuffle (groupby_sum gsum subcategory emission_t df)"

text \<open>
  The tie rule in the words of the specification: of two buckets with equal tonnes, the
  one whose first contributing row comes earlier in the input is presented first.
\<close>

definition first_seen :: "('r \<Rightarrow> cell) \<Rightarrow> 'r list \<Rightarrow> string \<Rightarrow> nat" where
  "first_seen key df k = length (takeWhile (\<lambda>r. key r \<noteq> Txt k) df)"

definition spec_ties_first_seen :: "('r \<Rightarrow> cell) \<Rightarrow> 'r list \<Rightarrow> (string \<times> real) list \<Rightarrow> bool" where
  "spec_ties_first_seen key df summary =
    (\<forall>j < length summary. \<forall>i < j.
       snd (summary ! i) = snd (summary ! j) \<longrightarrow>
       first_seen key df (fst (summary ! i)) < first_seen key df (fst (summary ! j)))"

section \<open>Upload, matching step and session state\<close>

text \<open>
  The uploaded table: its column names and, per row, the cells of the six required
  columns (read only once the columns are known to be there).
\<close>

record dataframe =
  df_columns :: "string list"
  df_rows :: "activity_row list"

definition required_cols :: "string list" where
  "required_cols = [c_category, c_subcategory, c_source, c_facility, c_activity, c_unit]"

record session_state =
  emission_factors :: library
  uploaded_data :: "dataframe option"
  matched_data :: "matched_row list option"
  edited_data :: "matched_row list option"
  calculation_done :: bool

datatype py_error = ZeroDivisionError

text \<open>
  Lines 250 to 253: the metric \<^verbatim>\<open>matched/total*100\<close>. Python's \<^verbatim>\<open>/\<close> on integers raises
  when the divisor is 0.
\<close>

definition match_rate :: "matched_row list \<Rightarrow> py_error + real" where
  "match_rate matched_df =
    (let total = length matched_df;
         matched = length (filter (\<lambda>r. match_status r = Txt s_matched) matched_df)
     in if total = 0 then Inl ZeroDivisionError
        else Inr (real matched / real total * 100))"

text \<open>
  What the user does during one run of the script: the table the first data editor
  returns, whether the match button is pressed, the table the second data editor returns
  for a given match result, whether the confirm button is pressed.
\<close>

record user_input =
  edited_upload_df :: "dataframe \<Rightarrow> dataframe"
  match_clicked :: bool
  edited_matched_df :: "matched_row list \<Rightarrow> matched_row list"
  confirm_clicked :: bool

datatype outcome =
    FormatError
  | UploadAccepted
  | MatchShown real
  | ReadFailed py_error

text \<open>
  Lines 155 to 324, one run of the script on an uploaded table \<open>df\<close>. An exception
  raised inside the \<^verbatim>\<open>try\<close> block ends the block with the state as it is at that point
  and is reported by the handler of line 322.
\<close>

definition upload_block :: "dataframe \<Rightarrow> user_input \<Rightarrow> session_state \<Rightarrow> outcome \<times> session_state" where
  "upload_block df ui st =
    (if \<not> (\<forall>col \<in> set required_cols. col \<in> set (df_columns df)) then (FormatError, st)
     else
       let st1 = st\<lparr>uploaded_data := Some df\<rparr>;
           edited = edited_upload_df ui df;
           st2 = st1\<lparr>uploaded_data := Some edited\<rparr>;
           st3 = (if match_clicked ui
                  then st2\<lparr>matched_data := Some (matcher (emission_factors st2) (df_rows edited))\<rparr>
                  else st2)
       in case matched_data st3 of
            None \<Rightarrow> (UploadAccepted, st3)
          | Some matched_df \<Rightarrow>
              (case match_rate matched_df of
                 Inl e \<Rightarrow> (ReadFailed e, st3)
               | Inr rate \<Rightarrow>
                   let st4 = st3\<lparr>edited_data :=
                               Some (reconcile matched_df (edited_matched_df ui matched_df))\<rparr>;
                       st5 = (if confirm_clicked ui then st4\<lparr>calculation_done := True\<rparr> else st4)
                   in (MatchShown rate, st5)))"

section \<open>Formula exporter\<close>

text \<open>
  The workbook of \<^verbatim>\<open>export_excel_with_formulas\<close>: the cells that hold data or formulas
  (header rows, styles and the instruction sheet are left out). A cell is addressed by
  sheet, row and column number (A is 1, E is 5, H is 8, J is 10, L is 12, M is 13).
\<close>

datatype sheet = Detail | Summary | GasAnalysis

datatype expr =
    Num real
  | Ref sheet nat nat
  | Times expr expr
  | Divide expr expr
  | Plus expr expr
  | IfPositive expr expr expr
  | SumIf sheet nat string nat nat nat

datatype xcell = Blank | Text string | Number real | Formula expr

type_synonym workbook = "sheet \<Rightarrow> nat \<Rightarrow> nat \<Rightarrow> xcell"

text \<open>Lines 454 to 473: row \<open>row_idx\<close> of the detail sheet, written from one computed row.\<close>

definition detail_cell :: "calc_row \<Rightarrow> nat \<Rightarrow> nat \<Rightarrow> xcell" where
  "detail_cell row row_idx col =
    (if col = 1 then Text (str (category row))
     else if col = 2 then Text (str (subcategory row))
     else if col = 3 then Text (str (source row))
     else if col = 4 then Text (str (facility row))
     else if col = 5 then Number (activity row)
     else if col = 6 then Text (str (measure_unit row))
     else if col = 7 then Text (str (suggested_type row))
     else if col = 8 then Number (emission_factor row)
     else if col = 9 then Text (str (factor_unit row))
     else if col = 10 then Text (str (ghg row))
     else if col = 11 then Text (str (data_source row))
     else if col = 12 then Formula (Times (Ref Detail row_idx 5) (Ref Detail row_idx 8))
     else if col = 13 then Formula (Divide (Ref Detail row_idx 12) (Num 1000))
     else Blank)"

text \<open>
  Lines 510 to 529: the summary sheet. \<open>SumIf sh c crit s r1 r2\<close> stands for
  \<^verbatim>\<open>SUMIF(sh!$c$r1:$c$r2, crit, sh!$s$r1:$s$r2)\<close>, and
  \<open>IfPositive a b c\<close> for \<^verbatim>\<open>IF(a>0,b,c)\<close>.
\<close>

definition summary_cell :: "calc_row list \<Rightarrow> nat \<Rightarrow> nat \<Rightarrow> xcell" where
  "summary_cell df row col =
    (let last_row = length df + 1 in
     if row = 4 \<and> col = 2 then
       Formula (SumIf Detail 1 (''*'' @ s_direct @ ''*'') 13 2 last_row)
     else if row = 4 \<and> col = 3 then
       Formula (IfPositive (Ref Summary 6 2)
                  (Times (Divide (Ref Summary 4 2) (Ref Summary 6 2)) (Num 100)) (Num 0))
     else if row = 5 \<and> col = 2 then
       Formula (SumIf Detail 1 (''*'' @ s_indirect @ ''*'') 13 2 last_row)
     else if row = 5 \<and> col = 3 then
       Formula (IfPositive (Ref Summary 6 2)
                  (Times (Divide (Ref Summary 5 2) (Ref Summary 6 2)) (Num 100)) (Num 0))
     else if row = 6 \<and> col = 2 then
       Formula (Plus (Ref Summary 4 2) (Ref Summary 5 2))
     else if row = 6 \<and> col = 3 then Text ''100.00''
     else Blank)"

text \<open>
  Lines 555 to 561: one row per distinct gas type, in order of first appearance
  (\<^verbatim>\<open>unique()\<close>), starting at row 4.
\<close>

definition unique :: "'a list \<Rightarrow> 'a list" where
  "unique xs = rev (remdups (rev xs))"

definition gas_cell :: "calc_row list \<Rightarrow> nat \<Rightarrow> nat \<Rightarrow> xcell" where
  "gas_cell df idx col =
    (let last_row = length df + 1;
         ghg_types = unique (map ghg df)
     in if 4 \<le> idx \<and> idx < 4 + length ghg_types then
          (let g = ghg_types ! (idx - 4) in
           if col = 1 then Text (str g)
           else if col = 2 then Formula (SumIf Detail 10 (str g) 13 2 last_row)
           else if col = 3 then
             Formula (IfPositive (Ref Summary 6 2)
                        (Times (Divide (Ref GasAnalysis idx 2) (Ref Summary 6 2)) (Num 100))
                        (Num 0))
           else Blank)
        else Blank)"

definition export_excel_with_formulas :: "calc_row list \<Rightarrow> workbook" where
  "export_excel_with_formulas df sh row col =
    (case sh of
       Detail \<Rightarrow>
         (if 2 \<le> row \<and> row < 2 + length df then detail_cell (df ! (row - 2)) row col
          else Blank)
     | Summary \<Rightarrow> summary_cell df row col
     | GasAnalysis \<Rightarrow> gas_cell df row col)"

subsection \<open>Evaluating the formulas\<close>

text \<open>
  The spreadsheet functions the exporter uses, with the meaning a spreadsheet engine
  gives them.
  \<^item> A reference to a formula cell is the value of that formula. \<open>fuel\<close> bounds the depth
    of such references, and the result \<open>None\<close> means that it ran out.
  \<^item> In arithmetic a blank cell counts as 0 and a text or an error gives an error;
    dividing by 0 gives an error.
  \<^item> \<^verbatim>\<open>IF(c>0,a,b)\<close>: a text compares greater than every number.
  \<^item> \<^verbatim>\<open>SUMIF\<close> adds the cells of the sum range in the rows whose cell in the criteria
    range meets the criterion. A text criterion is met by a text cell that it matches as
    a whole, where \<open>*\<close> stands for any run of characters and every other character for
    itself. Of the sum range only numbers are added; an error among them is the result.
  Letter case, the wildcard for one character and numbers written as text, which a
  spreadsheet engine also interprets, play no part in the criteria and cells below.
\<close>

datatype xvalue = VNum real | VText string | VBlank | VError

fun wildcard_match :: "string \<Rightarrow> string \<Rightarrow> bool" where
  "wildcard_match [] s = (s = [])"
| "wildcard_match (p # ps) [] = (p = CHR ''*'' \<and> wildcard_match ps [])"
| "wildcard_match (p # ps) (c # cs) =
    (if p = CHR ''*'' then wildcard_match ps (c # cs) \<or> wildcard_match (p # ps) cs
     else p = c \<and> wildcard_match ps cs)"

fun criterion_holds :: "string \<Rightarrow> xvalue \<Rightarrow> bool" where
  "criterion_holds crit (VText s) = wildcard_match crit s"
| "criterion_holds crit _ = False"

fun num_of :: "xvalue \<Rightarrow> real option" where
  "num_of (VNum x) = Some x"
| "num_of VBlank = Some 0"
| "num_of _ = None"

fun arith :: "(real \<Rightarrow> real \<Rightarrow> real) \<Rightarrow> xvalue \<Rightarrow> xvalue \<Rightarrow> xvalue" where
  "arith f a b =
    (case (num_of a, num_of b) of (Some x, Some y) \<Rightarrow> VNum (f x y) | _ \<Rightarrow> VError)"

fun divide_values :: "xvalue \<Rightarrow> xvalue \<Rightarrow> xvalue" where
  "divide_values a b =
    (case (num_of a, num_of b) of
       (Some x, Some y) \<Rightarrow> (if y = 0 then VError else VNum (x / y))
     | _ \<Rightarrow> VError)"

fun summand :: "xvalue \<Rightarrow> xvalue" where
  "summand (VNum x) = VNum x"
| "summand VError = VError"
| "summand _ = VNum 0"

text \<open>The rows of a \<^verbatim>\<open>SUMIF\<close>, each given by its criteria cell and its sum cell.\<close>

fun sumif_rows :: "string \<Rightarrow> (xvalue option \<times> xvalue option) list \<Rightarrow> xvalue option" where
  "sumif_rows crit [] = Some (VNum 0)"
| "sumif_rows crit ((Some c, Some v) # rest) =
    (case sumif_rows crit rest of
       None \<Rightarrow> None
     | Some acc \<Rightarrow> Some (if criterion_holds crit c then arith (+) (summand v) acc else acc))"
| "sumif_rows crit (_ # rest) = None"

fun plain_value :: "xcell \<Rightarrow> xvalue" where
  "plain_value (Text s) = VText s"
| "plain_value (Number x) = VNum x"
| "plain_value _ = VBlank"

fun eval :: "nat \<Rightarrow> workbook \<Rightarrow> expr \<Rightarrow> xvalue option" where
  "eval fuel wb (Num x) = Some (VNum x)"
| "eval 0 wb (Ref sh row col) = None"
| "eval (Suc fuel) wb (Ref sh row col) =
    (case wb sh row col of
       Formula e \<Rightarrow> eval fuel wb e
     | c \<Rightarrow> Some (plain_value c))"
| "eval fuel wb (Times a b) =
    (case (eval fuel wb a, eval fuel wb b) of
       (Some x, Some y) \<Rightarrow> Some (arith (*) x y) | _ \<Rightarrow> None)"
| "eval fuel wb (Divide a b) =
    (case (eval fuel wb a, eval fuel wb b) of
       (Some x, Some y) \<Rightarrow> Some (divide_values x y) | _ \<Rightarrow> None)"
| "eval fuel wb (Plus a b) =
    (case (eval fuel wb a, eval fuel wb b) of
       (Some x, Some y) \<Rightarrow> Some (arith (+) x y) | _ \<Rightarrow> None)"
| "eval fuel wb (IfPositive c a b) =
    (case eval fuel wb c of
       None \<Rightarrow> None
     | Some VError \<Rightarrow> Some VError
     | Some (VText s) \<Rightarrow> eval fuel wb a
     | Some (VNum x) \<Rightarrow> (if x > 0 then eval fuel wb a else eval fuel wb b)
     | Some VBlank \<Rightarrow> eval fuel wb b)"
| "eval 0 wb (SumIf sh ccol crit scol r1 r2) = None"
| "eval (Suc fuel) wb (SumIf sh ccol crit scol r1 r2) =
    (let cell_value = (\<lambda>row col. case wb sh row col of
                                       Formula e \<Rightarrow> eval fuel wb e
                                     | c \<Rightarrow> Some (plain_value c))
     in sumif_rows crit (map (\<lambda>row. (cell_value row ccol, cell_value row scol))
                             [r1 ..< Suc r2]))"

section \<open>Example inputs\<close>

text \<open>
  The first row of the template of \<^verbatim>\<open>create_template\<close>: scope one (direct emissions),
  subcategory \<open>1.1\<close> stationary combustion, natural gas, gas boiler, 1239138 cubic metres.
\<close>

definition template_row_gas :: activity_row where
  "template_row_gas =
    \<lparr>category = Txt (s_scope_one @ [CHR 0xEF, CHR 0xBC, CHR 0x9A] @ s_direct @
        [CHR 0xE6, CHR 0xB8, CHR 0xA9, CHR 0xE5, CHR 0xAE, CHR 0xA4, CHR 0xE6, CHR 0xB0, CHR 0x94,
         CHR 0xE4, CHR 0xBD, CHR 0x93, CHR 0xE6, CHR 0x8E, CHR 0x92, CHR 0xE6, CHR 0x94, CHR 0xBE]),
     subcategory = Txt (''1.1 '' @ s_stationary_combustion),
     source = Txt s_natural_gas,
     facility = Txt [CHR 0xE7, CHR 0x87, CHR 0x83, CHR 0xE6, CHR 0xB0, CHR 0x94,
                     CHR 0xE9, CHR 0x94, CHR 0x85, CHR 0xE7, CHR 0x82, CHR 0x89],
     activity = 1239138,
     measure_unit = Txt [CHR 0x6D, CHR 0xC2, CHR 0xB3]\<rparr>"

text \<open>A row whose text cells were all left blank in the uploaded workbook.\<close>

definition blank_row :: activity_row where
  "blank_row =
    \<lparr>category = NaN, subcategory = NaN, source = NaN, facility = NaN,
     activity = 100, measure_unit = NaN\<rparr>"

text \<open>The matched gas row after the user has typed the factor 2.5 over 2.1622.\<close>

definition edited_gas_row :: matched_row where
  "edited_gas_row = (match_row seed_library (init_columns template_row_gas))\<lparr>emission_factor := 2.5\<rparr>"

text \<open>Uploaded tables: the template, the template without its unit column, and a table with
  all six columns and no rows; a fresh session; a user who presses the match button and
  edits nothing.\<close>

definition template_df :: dataframe where
  "template_df = \<lparr>df_columns = required_cols, df_rows = [template_row_gas]\<rparr>"

definition df_without_unit :: dataframe where
  "df_without_unit =
    \<lparr>df_columns = [c_category, c_subcategory, c_source, c_facility, c_activity],
     df_rows = [template_row_gas]\<rparr>"

definition empty_df :: dataframe where
  "empty_df = \<lparr>df_columns = required_cols, df_rows = []\<rparr>"

definition initial_state :: session_state where
  "initial_state =
    \<lparr>emission_factors = seed_library, uploaded_data = None, matched_data = None,
     edited_data = None, calculation_done = False\<rparr>"

definition passive_user :: user_input where
  "passive_user =
    \<lparr>edited_upload_df = (\<lambda>df. df), match_clicked = True,
     edited_matched_df = (\<lambda>m. m), confirm_clicked = False\<rparr>"


definition tied_gases :: "matched_row list" where
  "tied_gases =
    (let m = matcher seed_library
               [template_row_gas\<lparr>subcategory := Txt ''1.4'', source := Txt ''R32'', activity := 2\<rparr>,
                template_row_gas\<lparr>subcategory := Txt ''1.3'', source := Txt s_carbon_dioxide,
                                 activity := 1350\<rparr>]
     in reconcile m m)"

text \<open>
  Three rows of the template matched without edits: natural gas (scope one, CO2),
  2 kg of the refrigerant R32 (scope one, HFCs) and purchased electricity (scope two,
  CO2).
\<close>

definition template_row_electricity :: activity_row where
  "template_row_electricity =
    \<lparr>category = Txt (s_scope_two @ [CHR 0xEF, CHR 0xBC, CHR 0x9A] @ s_indirect),
     subcategory = Txt (''2.1 '' @ s_purchased_electricity),
     source = Txt s_electricity,
     facility = Txt ''office'',
     activity = 1500000,
     measure_unit = Txt ''kWh''\<rparr>"

definition template_row_r32 :: activity_row where
  "template_row_r32 =
    template_row_gas\<lparr>subcategory := Txt (''1.4 '' @ s_fugitive_emission),
                     source := Txt ''R32'', activity := 2\<rparr>"

definition three_rows :: "matched_row list" where
  "three_rows =
    (let m = matcher seed_library [template_row_gas, template_row_r32, template_row_electricity]
     in reconcile m m)"


text \<open>An uploaded table of two rows, of which the matcher finds a factor for the first only.\<close>

definition two_row_df :: dataframe where
  "two_row_df = \<lparr>df_columns = required_cols, df_rows = [template_row_gas, blank_row]\<rparr>"

text \<open>The gas row after an unedited pass through reconciler and calculation engine.\<close>

definition scenario_natural_gas :: "calc_row list" where
  "scenario_natural_gas =
    (let m = matcher seed_library [template_row_gas] in calc_df (reconcile m m))"

text \<open>
  A row of purchased electricity whose category is written without the word for
  "indirect", matched against the seeded library and computed without edits.
\<close>

definition scope_two_row :: activity_row where
  "scope_two_row =
    \<lparr>category = Txt ''Scope 2'', subcategory = Txt ''2.1'', source = Txt s_electricity,
     facility = Txt ''office'', activity = 1000, measure_unit = Txt ''kWh''\<rparr>"

definition scope_two_calc :: "calc_row list" where
  "scope_two_calc =
    (let m = matcher seed_library [scope_two_row] in calc_df (reconcile m m))"

section \<open>Properties of the matcher\<close>

lemma str_contains_iff: "str_contains needle s \<longleftrightarrow> (\<exists>pre post. s = pre @ needle @ post)"
proof (induction s)
  case Nil
  then show ?case by auto
next
  case (Cons c cs)
  show ?case
  proof
    assume "str_contains needle (c # cs)"
    then consider "prefix needle (c # cs)" | "str_contains needle cs" by auto
    then show "\<exists>pre post. c # cs = pre @ needle @ post"
    proof cases
      case 1
      then obtain post where "c # cs = needle @ post" by (auto simp: prefix_def)
      then have "c # cs = [] @ needle @ post" by simp
      then show ?thesis by blast
    next
      case 2
      with Cons.IH obtain pre post where "cs = pre @ needle @ post" by blast
      then have "c # cs = (c # pre) @ needle @ post" by simp
      then show ?thesis by blast
    qed
  next
    assume "\<exists>pre post. c # cs = pre @ needle @ post"
    then obtain pre post where eq: "c # cs = pre @ needle @ post" by blast
    show "str_contains needle (c # cs)"
    proof (cases pre)
      case Nil
      with eq have "prefix needle (c # cs)" by (simp add: prefix_def)
      then show ?thesis by simp
    next
      case (Cons p pre')
      with eq have "cs = pre' @ needle @ post" by simp
      with Cons.IH have "str_contains needle cs" by blast
      then show ?thesis by simp
    qed
  qed
qed



lemma match_row_keeps:
  "subcategory (match_row lib row) = subcategory row"
  "source (match_row lib row) = source row"
  "category (match_row lib row) = category row"
  "activity (match_row lib row) = activity row"
  by (simp_all add: match_row_def Let_def split: option.splits)

lemma init_columns_keeps:
  "subcategory (init_columns r) = subcategory r"
  "source (init_columns r) = source r"
  "category (init_columns r) = category r"
  "activity (init_columns r) = activity r"
  by (simp_all add: init_columns_def activity_row.defs matched_row.defs)

lemma status_distinct:
  "s_matched \<noteq> s_unmatched" "s_matched \<noteq> s_manual" "s_unmatched \<noteq> s_manual"
  "s_unmatched \<noteq> s_matched" "s_manual \<noteq> s_matched" "s_manual \<noteq> s_unmatched"
  by (simp_all add: lit)






lemmas run =
  matcher_def match_row_def init_columns_def derive_key_def seed_library_def seed_entries_def
  reconcile_def reconcile_row_def calc_df_def compute_row_def Let_def
  activity_row.defs matched_row.defs calc_row.defs lit

lemmas agg =
  ghg_summary_def subcat_def groupby_sum_def group_keys_def sort_values_desc_def
  List.map_filter_def total_emission_def scope_summary_def scope1_def scope2_def series_get_def

section \<open>Properties of the override reconciler\<close>

text \<open>
  Claim C5. In a reconciliation pass, a row whose edited factor differs from the factor
  the matcher assigned gets data source "manually modified" and status "manual"; the
  library plays no part. Otherwise, when the factor is positive and the data source is
  not already "manually modified", the status becomes "matched"; in the remaining cases
  the row is left as edited. The factor is never changed.
\<close>

theorem reconcile_rule:
  assumes "length edited = length matched_df" and "i < length matched_df"
  shows "let m = matched_df ! i; e = edited ! i; r = reconcile matched_df edited ! i in
           (emission_factor e \<noteq> emission_factor m \<longrightarrow>
              data_source r = Txt s_manual_edit \<and> match_status r = Txt s_manual)
         \<and> (emission_factor e = emission_factor m \<and> emission_factor e > 0
              \<and> data_source e \<noteq> Txt s_manual_edit \<longrightarrow>
              match_status r = Txt s_matched \<and> data_source r = data_source e)
         \<and> (emission_factor e = emission_factor m
              \<and> (emission_factor e \<le> 0 \<or> data_source e = Txt s_manual_edit) \<longrightarrow> r = e)
         \<and> emission_factor r = emission_factor e"
  using assms
  by (auto simp: reconcile_def reconcile_row_def Let_def)

theorem reconcile_rule_witness:
  "length [edited_gas_row] = length (matcher seed_library [template_row_gas])
   \<and> (0::nat) < length (matcher seed_library [template_row_gas])
   \<and> emission_factor edited_gas_row \<noteq> emission_factor (matcher seed_library [template_row_gas] ! 0)
   \<and> data_source (reconcile (matcher seed_library [template_row_gas]) [edited_gas_row] ! 0) = Txt s_manual_edit
   \<and> match_status (reconcile (matcher seed_library [template_row_gas]) [edited_gas_row] ! 0) = Txt s_manual
   \<and> emission_factor (reconcile (matcher seed_library [template_row_gas]) [edited_gas_row] ! 0) = 2.5"
proof -
  let ?m = "matcher seed_library [template_row_gas]"
  have len: "length [edited_gas_row] = length ?m" "0 < length ?m" by (simp_all add: matcher_def)
  have f: "emission_factor (?m ! 0) = 2.1622"
    by (simp add: matcher_def match_row_def init_columns_def derive_key_def seed_library_def
        seed_entries_def lit activity_row.defs matched_row.defs template_row_gas_def Let_def)
  have e: "emission_factor edited_gas_row = 2.5" by (simp add: edited_gas_row_def)
  from reconcile_rule[OF len] len show ?thesis
    by (simp add: Let_def f e)
qed

section \<open>Properties of the calculation engine\<close>

lemma compute_row_fields:
  "emission_kg (compute_row r) = activity r * emission_factor r"
  "emission_t (compute_row r) = activity r * emission_factor r / 1000"
  "scope (compute_row r) = (if str_contains s_direct (str (category r)) then s_scope_one else s_scope_two)"
  "ghg (compute_row r) = ghg r"
  "subcategory (compute_row r) = subcategory r"
  "category (compute_row r) = category r"
  "activity (compute_row r) = activity r"
  "emission_factor (compute_row r) = emission_factor r"
  by (simp_all add: compute_row_def Let_def matched_row.defs calc_row.defs)

lemma scope_distinct: "s_scope_one \<noteq> s_scope_two" "s_scope_two \<noteq> s_scope_one"
  by (simp_all add: lit)

text \<open>
  Claim C2. For every row given to the calculation engine, the kilograms are the activity
  quantity times the row's factor, the tonnes are the kilograms divided by 1000, and the
  scope is scope one exactly when the category contains the word for "direct", scope two
  otherwise.
\<close>

theorem calc_engine_row:
  assumes "i < length edited"
  shows "let r = edited ! i; c = calc_df edited ! i in
           emission_kg c = activity r * emission_factor r
         \<and> emission_t c = emission_kg c / 1000
         \<and> (scope c = s_scope_one) = (\<exists>pre post. str (category r) = pre @ s_direct @ post)
         \<and> (scope c = s_scope_two) = (\<not> (\<exists>pre post. str (category r) = pre @ s_direct @ post))"
  using assms
  by (simp add: calc_df_def Let_def compute_row_fields scope_distinct str_contains_iff)

theorem calc_engine_row_witness:
  "(0::nat) < length (matcher seed_library [template_row_gas])
   \<and> emission_kg (calc_df (matcher seed_library [template_row_gas]) ! 0) = 2679264.1836
   \<and> emission_t (calc_df (matcher seed_library [template_row_gas]) ! 0) = 2679.2641836
   \<and> scope (calc_df (matcher seed_library [template_row_gas]) ! 0) = s_scope_one"
proof -
  let ?m = "matcher seed_library [template_row_gas]"
  have len: "0 < length ?m" by (simp add: matcher_def)
  have f: "emission_factor (?m ! 0) = 2.1622"
    by (simp add: matcher_def match_row_def init_columns_def derive_key_def seed_library_def
        seed_entries_def lit activity_row.defs matched_row.defs template_row_gas_def Let_def)
  have a: "activity (?m ! 0) = 1239138"
    by (simp add: matcher_def match_row_keeps init_columns_keeps template_row_gas_def)
  have c: "str (category (?m ! 0)) = (s_scope_one @ [CHR 0xEF, CHR 0xBC, CHR 0x9A]) @ s_direct @
        [CHR 0xE6, CHR 0xB8, CHR 0xA9, CHR 0xE5, CHR 0xAE, CHR 0xA4, CHR 0xE6, CHR 0xB0, CHR 0x94,
         CHR 0xE4, CHR 0xBD, CHR 0x93, CHR 0xE6, CHR 0x8E, CHR 0x92, CHR 0xE6, CHR 0x94, CHR 0xBE]"
    by (simp add: matcher_def match_row_keeps init_columns_keeps template_row_gas_def)
  then have ex: "\<exists>pre post. str (category (?m ! 0)) = pre @ s_direct @ post" by blast
  from calc_engine_row[OF len] len ex show ?thesis
    by (simp add: Let_def f a)
qed

text \<open>
  Claim C7, as amended. The template's natural gas row (scope one, subcategory 1.1,
  quantity 1239138) is matched against the seeded library to the key "stationary
  combustion - natural gas" with factor 2.1622; the calculation engine gives
  2679264.1836 kg, that is 2679.2641836 t (2679.26 to two decimals), in scope one.
\<close>

theorem scenario_natural_gas_values:
  "map suggested_type scenario_natural_gas = [Txt (s_stationary_combustion @ ''-'' @ s_natural_gas)]
   \<and> map emission_factor scenario_natural_gas = [2.1622]
   \<and> map match_status scenario_natural_gas = [Txt s_matched]
   \<and> map emission_kg scenario_natural_gas = [2679264.1836]
   \<and> map emission_t scenario_natural_gas = [2679.2641836]
   \<and> map scope scenario_natural_gas = [s_scope_one]"
  by (simp add: scenario_natural_gas_def template_row_gas_def run)

text \<open>
  The kilograms do not start with the digits 2679009, and the tonnes are not 2679.01 to
  two decimals.
\<close>

theorem scenario_natural_gas_counterexample:
  "\<not> (2679009 \<le> emission_kg (scenario_natural_gas ! 0)
       \<and> emission_kg (scenario_natural_gas ! 0) < 2679010)
   \<and> \<not> \<bar>emission_t (scenario_natural_gas ! 0) - 2679.01\<bar> \<le> 0.005"
  by (simp add: scenario_natural_gas_def template_row_gas_def run)

section \<open>Properties of the aggregator\<close>

lemma text_key_Some: "text_key c = Some k \<longleftrightarrow> c = Txt k"
  by (cases c) auto

lemma text_key_None: "text_key c = None \<longleftrightarrow> (\<forall>k. c \<noteq> Txt k)"
  by (cases c) auto

lemma present_iff: "text_key c \<noteq> None \<longleftrightarrow> c \<notin> {NaN, PyNone}"
  by (cases c) auto

lemma set_group_keys: "set (group_keys key df) = {k. \<exists>r \<in> set df. key r = Txt k}"
  by (auto simp: group_keys_def List.map_filter_def text_key_Some image_iff)
     (metis option.sel text_key.simps(1))


lemma sorted_group_keys: "sorted (group_keys key df)"
  by (simp add: group_keys_def)






lemma sum_abs_filter_le:
  "sum_list (map (\<lambda>r. \<bar>f r :: real\<bar>) (filter P df)) \<le> sum_list (map (\<lambda>r. \<bar>f r\<bar>) df)"
  by (induction df) auto

lemma sum_abs_nonneg: "0 \<le> sum_list (map (\<lambda>r. \<bar>f r :: real\<bar>) df)"
  by (induction df) auto


lemma series_get_groupby_sum:
  "series_get (groupby_sum gsum key val df) k 0
   = (if k \<in> set (group_keys key df) then gsum (map val (filter (\<lambda>r. key r = Txt k) df)) else 0)"
  by (simp add: series_get_def groupby_sum_def map_of_map_restrict restrict_map_def)


lemma scope_of_calc_df:
  "r \<in> set (calc_df edited) \<Longrightarrow> scope r = s_scope_one \<or> scope r = s_scope_two"
  by (auto simp: calc_df_def compute_row_def Let_def matched_row.defs calc_row.defs)

lemma sum_two_scopes:
  "\<forall>r \<in> set df. scope r = s_scope_one \<or> scope r = s_scope_two \<Longrightarrow>
   sum_list (map f (filter (\<lambda>r. scope r = s_scope_one) df))
   + sum_list (map f (filter (\<lambda>r. scope r = s_scope_two) df))
   = (sum_list (map f df) :: real)"
  by (induction df) (auto simp: scope_distinct)










lemma rearranges_rev: "rearranges rev"
  by (simp add: rearranges_def)






text \<open>With exact summation the two scope buckets add up to the total exactly.\<close>

lemma series_get_exact:
  "series_get (groupby_sum sum_list key val df) k 0
   = sum_list (map val (filter (\<lambda>r. key r = Txt k) df))"
proof (cases "k \<in> set (group_keys key df)")
  case True
  then show ?thesis by (simp add: series_get_groupby_sum)
next
  case False
  then have "filter (\<lambda>r. key r = Txt k) df = []"
    by (auto simp: set_group_keys filter_empty_conv)
  with False show ?thesis by (simp add: series_get_groupby_sum)
qed

lemma scope_buckets_total:
  "scope1 sum_list (calc_df edited) + scope2 sum_list (calc_df edited)
   = total_emission sum_list (calc_df edited)"
proof -
  have "\<forall>r \<in> set (calc_df edited). scope r = s_scope_one \<or> scope r = s_scope_two"
    using scope_of_calc_df by blast
  from sum_two_scopes[OF this, of emission_t] show ?thesis
    by (simp add: scope1_def scope2_def scope_summary_def series_get_exact total_emission_def)
qed




lemma sort_values_desc_descending:
  "sorted_wrt (\<lambda>a b. snd b \<le> snd a) (sort_values_desc shuffle xs)"
proof -
  have "sorted (map snd (sort_key snd (shuffle xs)))" by (rule sorted_sort_key)
  then have "sorted_wrt (\<lambda>a b. snd a \<le> snd b) (sort_key snd (shuffle xs))"
    by (simp add: sorted_map)
  then show ?thesis by (simp add: sort_values_desc_def sorted_wrt_rev)
qed

lemma sort_values_desc_mset:
  "rearranges shuffle \<Longrightarrow> mset (sort_values_desc shuffle xs) = mset xs"
  by (simp add: sort_values_desc_def rearranges_def)

text \<open>Every descending arrangement of a table is the result for some \<open>shuffle\<close>.\<close>

lemma sort_values_desc_any_order:
  assumes "sorted_wrt (\<lambda>a b. snd b \<le> snd a) ys"
  shows "sort_values_desc (\<lambda>_. rev ys) xs = ys"
proof -
  from assms have "sorted (map snd (rev ys))"
    by (simp add: sorted_map sorted_wrt_rev)
  then have "sort_key snd (rev ys) = rev ys"
    by (rule sort_key_id_if_sorted)
  then show ?thesis by (simp add: sort_values_desc_def)
qed

lemma mset_two:
  assumes "mset ys = mset [a, b]"
  shows "ys = [a, b] \<or> ys = [b, a]"
proof -
  from assms have "length ys = length [a, b]" by (rule mset_eq_length)
  then obtain x y where ys: "ys = [x, y]"
    by (cases ys; cases "tl ys") auto
  with assms have "add_mset x {#y#} = add_mset a {#b#}" by simp
  then have "(x = a \<and> y = b) \<or> (x = b \<and> y = a)"
    by (auto simp: add_eq_conv_ex)
  with ys show ?thesis by auto
qed

text \<open>
  Claim C9, as amended. The gas type summary and the subcategory summary are presented
  in descending order of tonnes, and they hold the buckets of the grouping, each once.
  Nothing more is fixed about buckets with equal tonnes: their order is the choice of the
  library's sort, not the order in which their rows first appear.
\<close>

theorem presentation_order:
  "sorted_wrt (\<lambda>a b. snd b \<le> snd a) (ghg_summary gsum shuffle df)
   \<and> sorted_wrt (\<lambda>a b. snd b \<le> snd a) (subcat gsum shuffle df)
   \<and> (rearranges shuffle \<longrightarrow>
        mset (ghg_summary gsum shuffle df) = mset (groupby_sum gsum ghg emission_t df)
      \<and> mset (subcat gsum shuffle df) = mset (groupby_sum gsum subcategory emission_t df))"
  by (simp add: ghg_summary_def subcat_def sort_values_desc_descending sort_values_desc_mset)

theorem presentation_order_witness:
  "rearranges rev
   \<and> ghg_summary sum_list rev (calc_df three_rows) = [(''CO2'', 3534.7141836), (''HFCs'', 1.35)]
   \<and> sorted_wrt (\<lambda>a b. snd b \<le> snd a) (ghg_summary sum_list rev (calc_df three_rows))
   \<and> map snd (subcat sum_list rev (calc_df three_rows)) = [2679.2641836, 855.45, 1.35]
   \<and> sorted_wrt (\<lambda>a b. snd b \<le> snd a) (subcat sum_list rev (calc_df three_rows))
   \<and> mset (subcat sum_list rev (calc_df three_rows))
       = mset (groupby_sum sum_list subcategory emission_t (calc_df three_rows))"
proof -
  have g: "ghg_summary sum_list rev (calc_df three_rows) = [(''CO2'', 3534.7141836), (''HFCs'', 1.35)]"
    by (simp add: three_rows_def template_row_gas_def template_row_r32_def
        template_row_electricity_def run agg)
  have sc: "map snd (subcat sum_list rev (calc_df three_rows)) = [2679.2641836, 855.45, 1.35]"
    by (simp add: three_rows_def template_row_gas_def template_row_r32_def
        template_row_electricity_def run agg)
  note order = presentation_order[of sum_list rev "calc_df three_rows"]
  from order have d1: "sorted_wrt (\<lambda>a b. snd b \<le> snd a) (ghg_summary sum_list rev (calc_df three_rows))"
    and d2: "sorted_wrt (\<lambda>a b. snd b \<le> snd a) (subcat sum_list rev (calc_df three_rows))"
    by blast+
  from order rearranges_rev
  have d3: "mset (subcat sum_list rev (calc_df three_rows))
            = mset (groupby_sum sum_list subcategory emission_t (calc_df three_rows))"
    by blast
  from rearranges_rev g d1 sc d2 d3 show ?thesis by blast
qed

lemma tied_gases_groups:
  "groupby_sum gsum ghg emission_t (calc_df tied_gases) = [(''CO2'', gsum [1.35]), (''HFCs'', gsum [1.35])]"
  "groupby_sum gsum ghg emission_t (calc_df (rev tied_gases))
   = [(''CO2'', gsum [1.35]), (''HFCs'', gsum [1.35])]"
  "map ghg (calc_df tied_gases) = [Txt ''HFCs'', Txt ''CO2'']"
  "map ghg (calc_df (rev tied_gases)) = [Txt ''CO2'', Txt ''HFCs'']"
  by (simp_all add: tied_gases_def template_row_gas_def run groupby_sum_def group_keys_def
      List.map_filter_def)

text \<open>
  Two rows of equal tonnes, HFCs first and CO2 second. The grouping gives the same two
  buckets for the two rows in either order, so the sort gives the same summary for both
  orders of the rows, and the summary cannot follow the order of first appearance in both.
\<close>

theorem presentation_order_counterexample:
  "map ghg (calc_df tied_gases) = [Txt ''HFCs'', Txt ''CO2'']
   \<and> map emission_t (calc_df tied_gases) = [1.35, 1.35]
   \<and> \<not> (\<exists>gsum shuffle.
          rearranges shuffle
          \<and> spec_ties_first_seen ghg (calc_df tied_gases)
               (ghg_summary gsum shuffle (calc_df tied_gases))
          \<and> spec_ties_first_seen ghg (calc_df (rev tied_gases))
               (ghg_summary gsum shuffle (calc_df (rev tied_gases))))"
proof -
  have rows: "map ghg (calc_df tied_gases) = [Txt ''HFCs'', Txt ''CO2'']"
    by (rule tied_gases_groups)
  have vals: "map emission_t (calc_df tied_gases) = [1.35, 1.35]"
    by (simp add: tied_gases_def template_row_gas_def run)
  have fs: "first_seen ghg (calc_df tied_gases) ''CO2'' = 1"
           "first_seen ghg (calc_df tied_gases) ''HFCs'' = 0"
    using rows by (auto simp: first_seen_def map_eq_Cons_conv)
  have fs': "first_seen ghg (calc_df (rev tied_gases)) ''CO2'' = 0"
            "first_seen ghg (calc_df (rev tied_gases)) ''HFCs'' = 1"
    using tied_gases_groups(4) by (auto simp: first_seen_def map_eq_Cons_conv)
  have "\<not> (\<exists>gsum shuffle.
          rearranges shuffle
          \<and> spec_ties_first_seen ghg (calc_df tied_gases)
               (ghg_summary gsum shuffle (calc_df tied_gases))
          \<and> spec_ties_first_seen ghg (calc_df (rev tied_gases))
               (ghg_summary gsum shuffle (calc_df (rev tied_gases))))"
  proof
    assume "\<exists>gsum shuffle.
          rearranges shuffle
          \<and> spec_ties_first_seen ghg (calc_df tied_gases)
               (ghg_summary gsum shuffle (calc_df tied_gases))
          \<and> spec_ties_first_seen ghg (calc_df (rev tied_gases))
               (ghg_summary gsum shuffle (calc_df (rev tied_gases)))"
    then obtain gsum shuffle where sh: "rearranges shuffle"
      and t1: "spec_ties_first_seen ghg (calc_df tied_gases)
                 (ghg_summary gsum shuffle (calc_df tied_gases))"
      and t2: "spec_ties_first_seen ghg (calc_df (rev tied_gases))
                 (ghg_summary gsum shuffle (calc_df (rev tied_gases)))"
      by blast
    define v where "v = gsum [1.35]"
    let ?G = "[(''CO2'', v), (''HFCs'', v)]"
    let ?S = "sort_values_desc shuffle ?G"
    have S1: "ghg_summary gsum shuffle (calc_df tied_gases) = ?S"
      and S2: "ghg_summary gsum shuffle (calc_df (rev tied_gases)) = ?S"
      by (simp_all add: ghg_summary_def tied_gases_groups v_def)
    have "mset ?S = mset ?G" by (rule sort_values_desc_mset[OF sh])
    then have "?S = [(''CO2'', v), (''HFCs'', v)] \<or> ?S = [(''HFCs'', v), (''CO2'', v)]"
      by (rule mset_two)
    then consider "?S = [(''CO2'', v), (''HFCs'', v)]" | "?S = [(''HFCs'', v), (''CO2'', v)]"
      by (rule disjE)
    then show False
    proof cases
      case 1
      note tie = t1[unfolded S1 spec_ties_first_seen_def, rule_format]
      have "first_seen ghg (calc_df tied_gases) (fst (?S ! 0))
            < first_seen ghg (calc_df tied_gases) (fst (?S ! 1))"
        by (rule tie) (simp_all add: 1)
      then show False by (simp add: 1 fs)
    next
      case 2
      note tie = t2[unfolded S2 spec_ties_first_seen_def, rule_format]
      have "first_seen ghg (calc_df (rev tied_gases)) (fst (?S ! 0))
            < first_seen ghg (calc_df (rev tied_gases)) (fst (?S ! 1))"
        by (rule tie) (simp_all add: 2)
      then show False by (simp add: 2 fs')
    qed
  qed
  with rows vals show ?thesis by blast
qed

section \<open>Properties of the upload and matching step\<close>

text \<open>
  Claim C8. The six required columns are checked before anything else happens to an
  uploaded table. When one of them is missing, the run ends with the format error and
  the session state is unchanged whatever the user does: the table is not stored and
  the matcher does not run. When all six are there, the table is stored.
\<close>

theorem upload_missing_column:
  "length required_cols = 6
   \<and> (col \<in> set required_cols \<and> col \<notin> set (df_columns df) \<longrightarrow>
        upload_block df ui st = (FormatError, st))
   \<and> (set required_cols \<subseteq> set (df_columns df) \<longrightarrow>
        fst (upload_block df ui st) \<noteq> FormatError
        \<and> uploaded_data (snd (upload_block df ui st)) = Some (edited_upload_df ui df))"
  by (auto simp: upload_block_def required_cols_def Let_def split: option.splits sum.splits)

theorem upload_missing_column_witness:
  "c_unit \<in> set required_cols \<and> c_unit \<notin> set (df_columns df_without_unit)
   \<and> upload_block df_without_unit passive_user initial_state = (FormatError, initial_state)
   \<and> uploaded_data initial_state = None \<and> matched_data initial_state = None
   \<and> set required_cols \<subseteq> set (df_columns template_df)
   \<and> uploaded_data (snd (upload_block template_df passive_user initial_state)) = Some template_df"
proof -
  have a: "c_unit \<in> set required_cols" by (simp add: required_cols_def)
  have b: "c_unit \<notin> set (df_columns df_without_unit)" by (simp add: df_without_unit_def lit)
  have c: "set required_cols \<subseteq> set (df_columns template_df)" by (simp add: template_df_def)
  have d: "edited_upload_df passive_user template_df = template_df" by (simp add: passive_user_def)
  from upload_missing_column[of c_unit df_without_unit passive_user initial_state]
    upload_missing_column[of c_unit template_df passive_user initial_state] a b c d
  show ?thesis by (simp add: initial_state_def)
qed

lemma match_rate_value:
  "match_rate m =
    (if m = [] then Inl ZeroDivisionError
     else Inr (real (length (filter (\<lambda>r. match_status r = Txt s_matched) m)) / real (length m) * 100))"
  by (simp add: match_rate_def Let_def)

lemma match_rate_bounds:
  assumes "m \<noteq> []"
  shows "0 \<le> real (length (filter (\<lambda>r. match_status r = Txt s_matched) m)) / real (length m) * 100"
    and "real (length (filter (\<lambda>r. match_status r = Txt s_matched) m)) / real (length m) * 100 \<le> 100"
proof -
  let ?k = "length (filter (\<lambda>r. match_status r = Txt s_matched) m)"
  show "0 \<le> real ?k / real (length m) * 100" by simp
  have "?k \<le> length m" by (rule length_filter_le)
  moreover have "0 < length m" using assms by simp
  ultimately have "real ?k / real (length m) \<le> 1" by (simp add: divide_le_eq_1)
  then have "real ?k / real (length m) * 100 \<le> 1 * 100"
    by (rule mult_right_mono) simp
  then show "real ?k / real (length m) * 100 \<le> 100" by simp
qed

text \<open>
  Claim C10. The match rate is computed as matched / total * 100 with no guard, where
  matched counts the rows with the status "matched". On a match result with no rows the
  division raises ZeroDivisionError, and a run of the script on an accepted table
  without rows, with the match button pressed, ends in that error, after the table and
  the empty match result have been stored. On every table with at least one row the
  rate is that quotient, a number between 0 and 100, and the run shows it and stores the
  table, the match result and the reconciled rows.
\<close>

theorem match_rate_zero_rows:
  "match_rate (matcher lib []) = Inl ZeroDivisionError
   \<and> (df \<noteq> [] \<longrightarrow>
        match_rate (matcher lib df)
          = Inr (real (length (filter (\<lambda>r. match_status r = Txt s_matched) (matcher lib df)))
                 / real (length df) * 100)
        \<and> (\<forall>v. match_rate (matcher lib df) = Inr v \<longrightarrow> 0 \<le> v \<and> v \<le> 100))
   \<and> (set required_cols \<subseteq> set (df_columns up) \<and> match_clicked ui \<longrightarrow>
        (let edited = edited_upload_df ui up;
             m = matcher (emission_factors st) (df_rows edited)
         in if df_rows edited = [] then
              upload_block up ui st
                = (ReadFailed ZeroDivisionError,
                   st\<lparr>uploaded_data := Some edited, matched_data := Some []\<rparr>)
            else
              upload_block up ui st
                = (MatchShown (real (length (filter (\<lambda>r. match_status r = Txt s_matched) m))
                               / real (length m) * 100),
                   st\<lparr>uploaded_data := Some edited, matched_data := Some m,
                      edited_data := Some (reconcile m (edited_matched_df ui m)),
                      calculation_done := (confirm_clicked ui \<or> calculation_done st)\<rparr>)))"
proof (intro conjI impI allI)
  show "match_rate (matcher lib []) = Inl ZeroDivisionError"
    by (simp add: match_rate_value matcher_def)
next
  assume "df \<noteq> []"
  then show "match_rate (matcher lib df)
          = Inr (real (length (filter (\<lambda>r. match_status r = Txt s_matched) (matcher lib df)))
                 / real (length df) * 100)"
    by (simp add: match_rate_value matcher_def)
next
  fix v assume "df \<noteq> []" and "match_rate (matcher lib df) = Inr v"
  then have m: "matcher lib df \<noteq> []"
    and v: "v = real (length (filter (\<lambda>r. match_status r = Txt s_matched) (matcher lib df)))
                / real (length (matcher lib df)) * 100"
    by (auto simp: match_rate_value matcher_def)
  from match_rate_bounds[OF m] show "0 \<le> v" and "v \<le> 100" by (simp_all only: v)
next
  assume a: "set required_cols \<subseteq> set (df_columns up) \<and> match_clicked ui"
  let ?edited = "edited_upload_df ui up"
  let ?m = "matcher (emission_factors st) (df_rows ?edited)"
  have cols: "\<forall>col \<in> set required_cols. col \<in> set (df_columns up)" using a by blast
  have empty_iff: "?m = [] \<longleftrightarrow> df_rows ?edited = []" by (simp add: matcher_def)
  show "let edited = edited_upload_df ui up;
            m = matcher (emission_factors st) (df_rows edited)
        in if df_rows edited = [] then
              upload_block up ui st
                = (ReadFailed ZeroDivisionError,
                   st\<lparr>uploaded_data := Some edited, matched_data := Some []\<rparr>)
            else
              upload_block up ui st
                = (MatchShown (real (length (filter (\<lambda>r. match_status r = Txt s_matched) m))
                               / real (length m) * 100),
                   st\<lparr>uploaded_data := Some edited, matched_data := Some m,
                      edited_data := Some (reconcile m (edited_matched_df ui m)),
                      calculation_done := (confirm_clicked ui \<or> calculation_done st)\<rparr>)"
  proof (cases "df_rows ?edited = []")
    case True
    then have "?m = []" by (simp add: matcher_def)
    with True a cols show ?thesis
      by (simp add: upload_block_def Let_def match_rate_value)
  next
    case False
    then have "?m \<noteq> []" by (simp add: matcher_def)
    with False a cols show ?thesis
      by (cases "confirm_clicked ui") (simp_all add: upload_block_def Let_def match_rate_value)
  qed
qed

theorem match_rate_zero_rows_witness:
  "match_rate (matcher seed_library []) = Inl ZeroDivisionError
   \<and> match_rate (matcher seed_library [template_row_gas, blank_row]) = Inr 50
   \<and> fst (upload_block empty_df passive_user initial_state) = ReadFailed ZeroDivisionError
   \<and> fst (upload_block two_row_df passive_user initial_state) = MatchShown 50
   \<and> matched_data (snd (upload_block two_row_df passive_user initial_state))
       = Some (matcher seed_library [template_row_gas, blank_row])"
proof -
  let ?m = "matcher seed_library [template_row_gas, blank_row]"
  have a: "[template_row_gas, blank_row] \<noteq> []" by simp
  have st: "map match_status ?m = [Txt s_matched, Txt s_unmatched]"
    by (simp add: matcher_def match_row_def init_columns_def derive_key_def seed_library_def
        seed_entries_def lit activity_row.defs matched_row.defs template_row_gas_def blank_row_def
        Let_def)
  have k: "length (filter (\<lambda>r. match_status r = Txt s_matched) ?m) = 1"
  proof -
    have "length (filter (\<lambda>r. match_status r = Txt s_matched) ?m)
          = length (filter (\<lambda>s. s = Txt s_matched) (map match_status ?m))"
      by (simp add: filter_map comp_def)
    then show ?thesis by (simp only: st) (simp add: status_distinct)
  qed
  have len: "length ?m = 2" by (simp add: matcher_def)
  have b: "set required_cols \<subseteq> set (df_columns empty_df) \<and> match_clicked passive_user"
    and c: "df_rows (edited_upload_df passive_user empty_df) = []"
    by (simp_all add: empty_df_def passive_user_def)
  have b2: "set required_cols \<subseteq> set (df_columns two_row_df) \<and> match_clicked passive_user"
    and c2: "df_rows (edited_upload_df passive_user two_row_df) = [template_row_gas, blank_row]"
    and lib: "emission_factors initial_state = seed_library"
    by (simp_all add: two_row_df_def passive_user_def initial_state_def)
  note thm1 = match_rate_zero_rows[of seed_library "[template_row_gas, blank_row]"
                empty_df passive_user initial_state]
  note thm2 = match_rate_zero_rows[of seed_library "[template_row_gas, blank_row]"
                two_row_df passive_user initial_state]
  from thm1 have r0: "match_rate (matcher seed_library []) = Inl ZeroDivisionError" by blast
  from thm1 a have r1: "match_rate ?m = Inr 50" by (simp add: k)
  from thm1 b c have r2: "fst (upload_block empty_df passive_user initial_state)
                          = ReadFailed ZeroDivisionError"
    by (simp add: Let_def)
  from thm2 b2 have "upload_block two_row_df passive_user initial_state
      = (MatchShown (real (length (filter (\<lambda>r. match_status r = Txt s_matched) ?m))
                               / real (length ?m) * 100),
         initial_state\<lparr>uploaded_data := Some (edited_upload_df passive_user two_row_df),
            matched_data := Some ?m,
            edited_data := Some (reconcile ?m (edited_matched_df passive_user ?m)),
            calculation_done := (confirm_clicked passive_user \<or> calculation_done initial_state)\<rparr>)"
    by (simp add: Let_def c2 lib)
  then have r3: "fst (upload_block two_row_df passive_user initial_state) = MatchShown 50"
    and r4: "matched_data (snd (upload_block two_row_df passive_user initial_state)) = Some ?m"
    by (simp_all add: k len)
  from r0 r1 r2 r3 r4 show ?thesis by blast
qed

section \<open>The exported workbook against the values in memory\<close>

text \<open>
  What the workbook's formulas evaluate to in general, for the rows the calculation
  engine produces: the two formulas of a detail row give the row's kilograms and tonnes,
  cell B4 of the summary sheet gives scope one, cell B5 gives the tonnes of the rows
  whose category contains the word for "indirect", and B6 their sum. So B5 and B6 agree
  with scope two and the total in memory when every category contains exactly one of the
  two words. The sums are exact on both sides, \<open>sum_list\<close> in memory and in the
  evaluation of \<^verbatim>\<open>SUMIF\<close>.
\<close>

lemma wildcard_star_only: "wildcard_match ''*'' s"
  by (induction s) auto

lemma wildcard_literal_star:
  "CHR ''*'' \<notin> set n \<Longrightarrow> wildcard_match (n @ ''*'') s \<longleftrightarrow> prefix n s"
proof (induction n arbitrary: s)
  case Nil
  then show ?case by (simp add: wildcard_star_only)
next
  case (Cons a n)
  then show ?case by (cases s) auto
qed

lemma wildcard_contains:
  assumes "CHR ''*'' \<notin> set n"
  shows "wildcard_match (''*'' @ n @ ''*'') s \<longleftrightarrow> str_contains n s"
proof (induction s)
  case Nil
  from assms show ?case by (cases n) auto
next
  case (Cons c cs)
  have "wildcard_match (''*'' @ n @ ''*'') (c # cs)
        \<longleftrightarrow> wildcard_match (n @ ''*'') (c # cs) \<or> wildcard_match (''*'' @ n @ ''*'') cs"
    by simp
  with Cons assms show ?case by (simp add: wildcard_literal_star)
qed

lemma star_free: "CHR ''*'' \<notin> set s_direct" "CHR ''*'' \<notin> set s_indirect"
  by (simp_all add: lit)

lemma export_detail_row:
  assumes "i < length df"
  shows "export_excel_with_formulas df Detail (Suc (Suc i)) col
         = detail_cell (df ! i) (Suc (Suc i)) col"
  using assms by (simp add: export_excel_with_formulas_def)

lemma detail_kg_formula:
  assumes "i < length df"
  shows "eval (Suc (Suc fuel)) (export_excel_with_formulas df) (Ref Detail (i + 2) 12)
         = Some (VNum (activity (df ! i) * emission_factor (df ! i)))"
  using assms by (simp add: export_detail_row detail_cell_def)

lemma detail_t_formula:
  assumes "i < length df"
  shows "eval (Suc (Suc (Suc fuel))) (export_excel_with_formulas df) (Ref Detail (i + 2) 13)
         = Some (VNum (activity (df ! i) * emission_factor (df ! i) / 1000))"
  using assms detail_kg_formula[OF assms, of fuel]
  by (simp add: export_detail_row detail_cell_def)

lemma sumif_rows_text_num:
  "sumif_rows crit (map (\<lambda>r. (Some (VText (t r)), Some (VNum (v r)))) rows)
   = Some (VNum (sum_list (map v (filter (\<lambda>r. wildcard_match crit (t r)) rows))))"
  by (induction rows) auto

lemma upt_shift: "[2 ..< Suc (n + 1)] = map (\<lambda>i. Suc (Suc i)) [0 ..< n]"
proof -
  have "map (\<lambda>i. Suc (Suc i)) [0 ..< n] = map Suc (map Suc [0 ..< n])" by simp
  also have "\<dots> = [Suc (Suc 0) ..< Suc (Suc n)]" by (simp only: map_Suc_upt)
  finally show ?thesis by (simp add: numeral_2_eq_2)
qed

lemma sumif_detail:
  "eval (Suc (Suc (Suc (Suc fuel)))) (export_excel_with_formulas (calc_df edited))
      (SumIf Detail 1 crit 13 2 (length (calc_df edited) + 1))
   = Some (VNum (sum_list (map emission_t
        (filter (\<lambda>r. wildcard_match crit (str (category r))) (calc_df edited)))))"
proof -
  let ?df = "calc_df edited"
  let ?wb = "export_excel_with_formulas ?df"
  let ?cv = "\<lambda>row col. case ?wb Detail row col of
                Formula e \<Rightarrow> eval (Suc (Suc (Suc fuel))) ?wb e
              | c \<Rightarrow> Some (plain_value c)"
  have cells: "(?cv (Suc (Suc i)) 1, ?cv (Suc (Suc i)) 13)
               = (Some (VText (str (category (?df ! i)))), Some (VNum (emission_t (?df ! i))))"
    if "i < length ?df" for i
  proof -
    from that have "i < length edited" by (simp add: calc_df_def)
    then have t: "emission_t (?df ! i) = activity (?df ! i) * emission_factor (?df ! i) / 1000"
      by (simp add: calc_df_def compute_row_fields)
    from that show ?thesis
      by (simp add: export_detail_row detail_cell_def t)
  qed
  have "map (\<lambda>row. (?cv row 1, ?cv row 13)) [2 ..< Suc (length ?df + 1)]
        = map (\<lambda>i. (?cv (Suc (Suc i)) 1, ?cv (Suc (Suc i)) 13)) [0 ..< length ?df]"
    by (simp only: upt_shift map_map comp_def)
  also have "\<dots> = map (\<lambda>i. (Some (VText (str (category (?df ! i)))), Some (VNum (emission_t (?df ! i)))))
                       [0 ..< length ?df]"
    by (rule map_cong[OF refl], rule cells) simp
  also have "\<dots> = map (\<lambda>r. (Some (VText (str (category r))), Some (VNum (emission_t r))))
                       (map (\<lambda>i. ?df ! i) [0 ..< length ?df])"
    by (simp only: map_map comp_def)
  also have "\<dots> = map (\<lambda>r. (Some (VText (str (category r))), Some (VNum (emission_t r)))) ?df"
    by (simp only: map_nth)
  finally have rows: "map (\<lambda>row. (?cv row 1, ?cv row 13)) [2 ..< Suc (length ?df + 1)]
        = map (\<lambda>r. (Some (VText (str (category r))), Some (VNum (emission_t r)))) ?df" .
  show ?thesis
    by (simp only: eval.simps Let_def rows sumif_rows_text_num)
qed

lemma filter_scope_calc_df:
  "filter (\<lambda>r. scope r = s_scope_one) (calc_df edited)
   = filter (\<lambda>r. str_contains s_direct (str (category r))) (calc_df edited)"
  "filter (\<lambda>r. scope r = s_scope_two) (calc_df edited)
   = filter (\<lambda>r. \<not> str_contains s_direct (str (category r))) (calc_df edited)"
  by (rule filter_cong; auto simp: calc_df_def compute_row_fields scope_distinct split: if_splits)+

lemma scope1_calc_df:
  "scope1 sum_list (calc_df edited)
   = sum_list (map emission_t
       (filter (\<lambda>r. str_contains s_direct (str (category r))) (calc_df edited)))"
  by (simp add: scope1_def scope_summary_def series_get_exact filter_scope_calc_df)

lemma scope2_calc_df:
  "scope2 sum_list (calc_df edited)
   = sum_list (map emission_t
       (filter (\<lambda>r. \<not> str_contains s_direct (str (category r))) (calc_df edited)))"
  by (simp add: scope2_def scope_summary_def series_get_exact filter_scope_calc_df)

lemma summary_scope_one_cell:
  "eval (Suc (Suc (Suc (Suc (Suc fuel))))) (export_excel_with_formulas (calc_df edited))
     (Ref Summary 4 2) = Some (VNum (scope1 sum_list (calc_df edited)))"
proof -
  have "export_excel_with_formulas (calc_df edited) Summary 4 2
        = Formula (SumIf Detail 1 (''*'' @ s_direct @ ''*'') 13 2 (length (calc_df edited) + 1))"
    by (simp add: export_excel_with_formulas_def summary_cell_def)
  then show ?thesis
    by (simp only: eval.simps(3) xcell.case sumif_detail wildcard_contains[OF star_free(1)]
        scope1_calc_df)
qed

lemma summary_scope_two_cell:
  "eval (Suc (Suc (Suc (Suc (Suc fuel))))) (export_excel_with_formulas (calc_df edited))
     (Ref Summary 5 2)
   = Some (VNum (sum_list (map emission_t
       (filter (\<lambda>r. str_contains s_indirect (str (category r))) (calc_df edited)))))"
proof -
  have "export_excel_with_formulas (calc_df edited) Summary 5 2
        = Formula (SumIf Detail 1 (''*'' @ s_indirect @ ''*'') 13 2 (length (calc_df edited) + 1))"
    by (simp add: export_excel_with_formulas_def summary_cell_def)
  then show ?thesis
    by (simp only: eval.simps(3) xcell.case sumif_detail wildcard_contains[OF star_free(2)])
qed

lemma summary_total_cell:
  "eval (Suc (Suc (Suc (Suc (Suc (Suc fuel)))))) (export_excel_with_formulas (calc_df edited))
     (Ref Summary 6 2)
   = Some (VNum (scope1 sum_list (calc_df edited)
       + sum_list (map emission_t
           (filter (\<lambda>r. str_contains s_indirect (str (category r))) (calc_df edited)))))"
proof -
  have "export_excel_with_formulas (calc_df edited) Summary 6 2
        = Formula (Plus (Ref Summary 4 2) (Ref Summary 5 2))"
    by (simp add: export_excel_with_formulas_def summary_cell_def)
  then show ?thesis
    using summary_scope_one_cell[of fuel edited] summary_scope_two_cell[of fuel edited]
    by simp
qed

lemma summary_sheet_agrees:
  assumes "\<forall>r \<in> set edited.
     str_contains s_indirect (str (category r)) \<longleftrightarrow> \<not> str_contains s_direct (str (category r))"
  shows "eval (Suc (Suc (Suc (Suc (Suc fuel))))) (export_excel_with_formulas (calc_df edited))
           (Ref Summary 5 2) = Some (VNum (scope2 sum_list (calc_df edited)))"
    and "eval (Suc (Suc (Suc (Suc (Suc (Suc fuel)))))) (export_excel_with_formulas (calc_df edited))
           (Ref Summary 6 2) = Some (VNum (total_emission sum_list (calc_df edited)))"
proof -
  from assms have "filter (\<lambda>r. str_contains s_indirect (str (category r))) (calc_df edited)
        = filter (\<lambda>r. \<not> str_contains s_direct (str (category r))) (calc_df edited)"
    by (intro filter_cong) (auto simp: calc_df_def compute_row_fields)
  then have eq: "sum_list (map emission_t
                   (filter (\<lambda>r. str_contains s_indirect (str (category r))) (calc_df edited)))
                 = scope2 sum_list (calc_df edited)"
    by (simp add: scope2_calc_df)
  show "eval (Suc (Suc (Suc (Suc (Suc fuel))))) (export_excel_with_formulas (calc_df edited))
           (Ref Summary 5 2) = Some (VNum (scope2 sum_list (calc_df edited)))"
    by (simp only: summary_scope_two_cell eq)
  show "eval (Suc (Suc (Suc (Suc (Suc (Suc fuel)))))) (export_excel_with_formulas (calc_df edited))
           (Ref Summary 6 2) = Some (VNum (total_emission sum_list (calc_df edited)))"
    by (simp only: summary_total_cell eq scope_buckets_total)
qed

lemmas xl = export_excel_with_formulas_def detail_cell_def summary_cell_def gas_cell_def unique_def

text \<open>
  Claim C1 at a row whose category holds neither the word for "direct" nor the word
  for "indirect". In memory the row is in scope two: scope two and the total are both
  0.5703 t and the share of scope two is 100 percent. In the workbook the detail sheet's
  formula for the tonnes (M2) evaluates to 0.5703 as well, but the summary sheet's
  scope two sum (B5), its total (B6) and the share of scope two (C5) evaluate to 0.
  The sums in memory are taken with the exact summation \<open>sum_list\<close>; each is over one
  row or none.
\<close>

theorem export_scope_two_divergence:
  "scope1 sum_list scope_two_calc = 0
   \<and> scope2 sum_list scope_two_calc = 0.5703
   \<and> total_emission sum_list scope_two_calc = 0.5703
   \<and> share (scope2 sum_list scope_two_calc) (total_emission sum_list scope_two_calc) = 100
   \<and> eval 10 (export_excel_with_formulas scope_two_calc) (Ref Detail 2 13) = Some (VNum 0.5703)
   \<and> eval 10 (export_excel_with_formulas scope_two_calc) (Ref Summary 4 2) = Some (VNum 0)
   \<and> eval 10 (export_excel_with_formulas scope_two_calc) (Ref Summary 5 2) = Some (VNum 0)
   \<and> eval 10 (export_excel_with_formulas scope_two_calc) (Ref Summary 6 2) = Some (VNum 0)
   \<and> eval 10 (export_excel_with_formulas scope_two_calc) (Ref Summary 5 3) = Some (VNum 0)"
proof -
  have rows: "scope_two_calc =
    [\<lparr>category = Txt ''Scope 2'', subcategory = Txt ''2.1'', source = Txt s_electricity,
      facility = Txt ''office'', activity = 1000, measure_unit = Txt ''kWh'',
      suggested_type = Txt (s_purchased_electricity @ ''-'' @ s_national_average),
      emission_factor = 0.5703, factor_unit = Txt ''kgCO2/kWh'', ghg = Txt ''CO2'',
      match_status = Txt s_matched, data_source = Txt s_factor_library,
      emission_kg = 570.3, emission_t = 0.5703, scope = s_scope_two\<rparr>]"
    by (simp add: scope_two_calc_def scope_two_row_def run)
  show ?thesis
    unfolding rows
    by (simp add: agg xl share_def lit eval_nat_numeral)
qed

end
